theory Spec2Isabelle
  imports Complex_Main "HOL-Library.Word"
begin

section \<open>The camera node (pylon\_camera\_node.cpp)\<close>

subsection \<open>Data\<close>

type_synonym u8 = "8 word"

text \<open>\<^verbatim>\<open>ros::Time\<close> and \<^verbatim>\<open>ros::Duration\<close> count nanoseconds;
  \<^verbatim>\<open>ros::Duration(5.0)\<close> is five seconds.\<close>

type_synonym time = int

definition Duration :: "int \<Rightarrow> time" where
  "Duration seconds = seconds * 1000000000"

text \<open>Where the brightness computation leaves what the source defines: the failed
  \<^verbatim>\<open>assert\<close>, which aborts the process; in a build with \<^verbatim>\<open>NDEBUG\<close> (where \<^verbatim>\<open>assert\<close>
  expands to nothing) the integer division by a zero size; and \<^verbatim>\<open>int\<close> arithmetic whose
  result does not fit the 32-bit \<^verbatim>\<open>int\<close>. The last two are undefined behaviour in C++: the
  functions below return the fault and no value there, whatever a particular build would
  compute.\<close>

datatype fault = AssertionFailed | DivisionByZero | SignedOverflow

definition INT_MIN :: int where
  "INT_MIN = - 2147483648"

definition INT_MAX :: int where
  "INT_MAX = 2147483647"

text \<open>The result of an \<^verbatim>\<open>int\<close> operation whose exact value is \<^verbatim>\<open>r\<close>.\<close>

definition int_result :: "int \<Rightarrow> fault + int" where
  "int_result r = (if INT_MIN \<le> r \<and> r \<le> INT_MAX then Inr r else Inl SignedOverflow)"

text \<open>The members of \<^verbatim>\<open>PylonCameraNode\<close> that the grab paths and the two services read
  and write, followed by the calls that leave the node: \<^verbatim>\<open>grab_calls\<close> and \<^verbatim>\<open>now_calls\<close>
  count the calls of \<^verbatim>\<open>pylon_camera_->grab\<close> and of \<^verbatim>\<open>ros::Time::now\<close> made from the grab
  paths, \<^verbatim>\<open>shutdown_calls\<close> those of \<^verbatim>\<open>ros::shutdown\<close>, \<^verbatim>\<open>spin_calls\<close> those of
  \<^verbatim>\<open>ros::spinOnce\<close>; \<^verbatim>\<open>brightness_writes\<close> and \<^verbatim>\<open>exposure_writes\<close> list the arguments of
  the calls of \<^verbatim>\<open>pylon_camera_->setBrightness\<close> and \<^verbatim>\<open>pylon_camera_->setExposure\<close> that the
  functions below make, oldest first.\<close>

record node =
  img_raw_data :: "u8 list"
  img_raw_stamp :: time
  cam_info_stamp :: time
  exp_times_stamp :: time
  target_brightness :: int
  brightness_service_running :: bool
  grab_calls :: nat
  now_calls :: nat
  shutdown_calls :: nat
  spin_calls :: nat
  brightness_writes :: "int list"
  exposure_writes :: "rat list"

text \<open>The constructor (lines 8-23): \<^verbatim>\<open>target_brightness_(-42)\<close>,
  \<^verbatim>\<open>brightness_service_running_(false)\<close>; the messages are default-constructed (no pixel
  data, stamps zero) and nothing has been called yet.\<close>

definition PylonCameraNode :: node where
  "PylonCameraNode =
     \<lparr>img_raw_data = [], img_raw_stamp = 0, cam_info_stamp = 0, exp_times_stamp = 0,
      target_brightness = - 42, brightness_service_running = False,
      grab_calls = 0, now_calls = 0, shutdown_calls = 0, spin_calls = 0,
      brightness_writes = [], exposure_writes = []\<rparr>"

subsection \<open>The device's grab and the clock\<close>

text \<open>\<^verbatim>\<open>pylon_camera_->grab(buffer)\<close> belongs to the device interface, which the node only
  calls. A call either succeeds and leaves the frame in the buffer, or fails; after a
  failure \<^verbatim>\<open>isCamRemoved()\<close> answers the flag of the outcome, and the buffer is as the device
  left it: untouched (\<^verbatim>\<open>None\<close>) or holding some bytes. The device is the sequence of its
  outcomes, the k-th call of \<^verbatim>\<open>grab\<close> getting the k-th; likewise the clock is the sequence
  of the values that successive calls of \<^verbatim>\<open>ros::Time::now()\<close> return.\<close>

datatype grab_outcome = Grabbed "u8 list" | Failed bool "u8 list option"

type_synonym device = "nat \<Rightarrow> grab_outcome"
type_synonym clock = "nat \<Rightarrow> time"

fun grab_ok :: "grab_outcome \<Rightarrow> bool" where
  "grab_ok (Grabbed frame) = True"
| "grab_ok (Failed removed left) = False"

fun grab_buffer :: "grab_outcome \<Rightarrow> u8 list \<Rightarrow> u8 list" where
  "grab_buffer (Grabbed frame) buffer = frame"
| "grab_buffer (Failed removed None) buffer = buffer"
| "grab_buffer (Failed removed (Some bytes)) buffer = bytes"

fun isCamRemoved :: "grab_outcome \<Rightarrow> bool" where
  "isCamRemoved (Grabbed frame) = False"
| "isCamRemoved (Failed removed left) = removed"

subsection \<open>The grab paths\<close>

text \<open>\<^verbatim>\<open>grabImage\<close> (lines 141-160): the grab writes into \<^verbatim>\<open>img_raw_msg_.data\<close> itself.\<close>

definition grabImage :: "device \<Rightarrow> clock \<Rightarrow> node \<Rightarrow> bool \<times> node" where
  "grabImage dev clk s =
     (let out = dev (grab_calls s);
          s1 = s\<lparr>img_raw_data := grab_buffer out (img_raw_data s),
                grab_calls := Suc (grab_calls s)\<rparr>
      in if \<not> grab_ok out then
           (if isCamRemoved out
            then (False, s1\<lparr>shutdown_calls := Suc (shutdown_calls s1)\<rparr>)
            else (False, s1))
         else
           (let s2 = s1\<lparr>img_raw_stamp := clk (now_calls s1), now_calls := Suc (now_calls s1)\<rparr>
            in (True, s2\<lparr>cam_info_stamp := img_raw_stamp s2\<rparr>)))"

text \<open>\<^verbatim>\<open>grabSequence\<close> (lines 162-195). One pass of the loop body at index \<^verbatim>\<open>i\<close>, on the locals
  \<^verbatim>\<open>success\<close> and \<^verbatim>\<open>tmp_image\<close> and the node; the loop is the fold of the body over
  \<^verbatim>\<open>0 .. size - 1\<close>.\<close>

definition grabSequence_body ::
  "device \<Rightarrow> clock \<Rightarrow> nat \<Rightarrow> nat \<Rightarrow> bool \<times> u8 list \<times> node \<Rightarrow> bool \<times> u8 list \<times> node" where
  "grabSequence_body dev clk mid i = (\<lambda>(success, tmp_image, s).
     let out = dev (grab_calls s);
         tmp_image1 = grab_buffer out tmp_image;
         s1 = s\<lparr>grab_calls := Suc (grab_calls s)\<rparr>;
         s2 = (if \<not> grab_ok out \<and> isCamRemoved out
               then s1\<lparr>shutdown_calls := Suc (shutdown_calls s1)\<rparr> else s1);
         success1 = (if \<not> grab_ok out then False else success)
     in if i = mid \<and> success1
        then (success1, tmp_image1,
              s2\<lparr>img_raw_data := tmp_image1, img_raw_stamp := clk (now_calls s2),
                 now_calls := Suc (now_calls s2)\<rparr>)
        else (success1, tmp_image1, s2))"

definition grabSequence_loop ::
  "device \<Rightarrow> clock \<Rightarrow> nat \<Rightarrow> nat \<Rightarrow> bool \<times> u8 list \<times> node \<Rightarrow> bool \<times> u8 list \<times> node" where
  "grabSequence_loop dev clk mid n = fold (grabSequence_body dev clk mid) [0..<n]"

definition grabSequence :: "device \<Rightarrow> clock \<Rightarrow> rat list \<Rightarrow> node \<Rightarrow> bool \<times> node" where
  "grabSequence dev clk desired_seq_exp_times s =
     (let mid = length desired_seq_exp_times div 2
      in case grabSequence_loop dev clk mid (length desired_seq_exp_times) (True, [], s) of
           (success, tmp_image, s1) \<Rightarrow>
             if \<not> success then (False, s1)
             else (True, s1\<lparr>cam_info_stamp := img_raw_stamp s1,
                            exp_times_stamp := img_raw_stamp s1\<rparr>))"

text \<open>The session's image metadata (\<^verbatim>\<open>imageEncoding\<close>, \<^verbatim>\<open>imageRows\<close>, \<^verbatim>\<open>imageCols\<close>,
  \<^verbatim>\<open>imagePixelDepth\<close>), a \<^verbatim>\<open>sensor_msgs::Image\<close> with its 32-bit dimensions, and the
  \<^verbatim>\<open>GrabSequenceResult\<close>.\<close>

record session =
  imageEncoding :: string
  imageRows :: nat
  imageCols :: nat
  imagePixelDepth :: nat

record image =
  img_encoding :: string
  img_height :: "32 word"
  img_width :: "32 word"
  img_step :: "32 word"
  img_data :: "u8 list"
  img_stamp :: time

record sequence_result =
  res_images :: "image list"
  res_exposure_times :: "rat list"
  res_success :: bool

definition default_image :: image where
  "default_image =
     \<lparr>img_encoding = [], img_height = 0, img_width = 0, img_step = 0, img_data = [],
      img_stamp = 0\<rparr>"

text \<open>\<^verbatim>\<open>sequenceRawActionExecuteCB\<close> (lines 217-246). \<^verbatim>\<open>img\<close> is a reference to
  \<^verbatim>\<open>result.images[i]\<close>, in range since the vector was resized to the loop's bound: the
  body reads the element, updates it and stores it back. The value returned is the result
  handed to \<^verbatim>\<open>setSucceeded\<close>.\<close>

definition sequenceRaw_body ::
  "session \<Rightarrow> device \<Rightarrow> clock \<Rightarrow> nat \<Rightarrow> sequence_result \<times> node \<Rightarrow> sequence_result \<times> node" where
  "sequenceRaw_body cam dev clk i = (\<lambda>(result, s).
     let img = res_images result ! i;
         img1 = img\<lparr>img_encoding := imageEncoding cam,
                    img_height := of_nat (imageRows cam),
                    img_width := of_nat (imageCols cam)\<rparr>;
         img2 = img1\<lparr>img_step := of_nat (unat (img_width img1) * imagePixelDepth cam)\<rparr>;
         out = dev (grab_calls s);
         img3 = img2\<lparr>img_data := grab_buffer out (img_data img2)\<rparr>;
         s1 = s\<lparr>grab_calls := Suc (grab_calls s)\<rparr>;
         result1 = (if \<not> grab_ok out then result\<lparr>res_success := False\<rparr> else result);
         img4 = img3\<lparr>img_stamp := clk (now_calls s1)\<rparr>;
         s2 = s1\<lparr>now_calls := Suc (now_calls s1)\<rparr>
     in (result1\<lparr>res_images := (res_images result1)[i := img4]\<rparr>, s2))"

definition sequenceRaw_loop ::
  "session \<Rightarrow> device \<Rightarrow> clock \<Rightarrow> nat \<Rightarrow> sequence_result \<times> node \<Rightarrow> sequence_result \<times> node" where
  "sequenceRaw_loop cam dev clk n = fold (sequenceRaw_body cam dev clk) [0..<n]"

definition sequenceRawActionExecuteCB ::
  "session \<Rightarrow> device \<Rightarrow> clock \<Rightarrow> rat list \<Rightarrow> node \<Rightarrow> sequence_result \<times> node" where
  "sequenceRawActionExecuteCB cam dev clk desired_seq_exp_times s =
     (let result = \<lparr>res_images = replicate (length desired_seq_exp_times) default_image,
                     res_exposure_times = desired_seq_exp_times, res_success = True\<rparr>
      in case sequenceRaw_loop cam dev clk (length desired_seq_exp_times) (result, s) of
           (result1, s1) \<Rightarrow>
             if \<not> res_success result1 then (result1\<lparr>res_images := []\<rparr>, s1)
             else (result1, s1))"

subsection \<open>Brightness of the frame buffer\<close>

text \<open>\<^verbatim>\<open>std::accumulate(first, last, init)\<close> with an \<^verbatim>\<open>int\<close> \<^verbatim>\<open>init\<close>: a left fold of
  \<^verbatim>\<open>acc = acc + byte\<close>, every byte promoted to \<^verbatim>\<open>int\<close> and every sum an \<^verbatim>\<open>int\<close> sum.\<close>

fun accumulate :: "u8 list \<Rightarrow> int \<Rightarrow> fault + int" where
  "accumulate [] init = Inr init"
| "accumulate (b # bytes) init =
     (case int_result (init + uint b) of
        Inl f \<Rightarrow> Inl f
      | Inr acc \<Rightarrow> accumulate bytes acc)"

text \<open>\<^verbatim>\<open>calcCurrentBrightness\<close> (lines 375-382). The sum (\<^verbatim>\<open>pixel_sum\<close> below) is taken
  first, then the assertion runs (unless \<^verbatim>\<open>ndebug\<close>), then
  \<^verbatim>\<open>sum / img_raw_msg_.data.size()\<close> divides two integers: the sum, which is not negative,
  converted to \<^verbatim>\<open>size_t\<close>, by the size. The quotient is already truncated when it is stored
  in the \<^verbatim>\<open>float\<close>; it is at most 255, so the \<^verbatim>\<open>float\<close> holds it exactly and the cast back
  to \<^verbatim>\<open>int\<close> returns it unchanged.\<close>

definition calcCurrentBrightness :: "bool \<Rightarrow> node \<Rightarrow> fault + int" where
  "calcCurrentBrightness ndebug s =
     (case accumulate (img_raw_data s) 0 of
        Inl f \<Rightarrow> Inl f
      | Inr pixel_sum \<Rightarrow>
          if \<not> ndebug \<and> \<not> (length (img_raw_data s) > 0) then Inl AssertionFailed
          else if length (img_raw_data s) = 0 then Inl DivisionByZero
          else Inr (pixel_sum div int (length (img_raw_data s))))"

text \<open>\<^verbatim>\<open>brightnessValidation\<close> (lines 365-373): \<^verbatim>\<open>target - mean\<close> and \<^verbatim>\<open>abs\<close> are \<^verbatim>\<open>int\<close>
  operations.\<close>

definition brightnessValidation :: "bool \<Rightarrow> int \<Rightarrow> node \<Rightarrow> fault + bool" where
  "brightnessValidation ndebug target s =
     (case calcCurrentBrightness ndebug s of
        Inl f \<Rightarrow> Inl f
      | Inr mean \<Rightarrow>
          (case int_result (target - mean) of
             Inl f \<Rightarrow> Inl f
           | Inr difference \<Rightarrow>
               (case int_result \<bar>difference\<bar> of
                  Inl f \<Rightarrow> Inl f
                | Inr distance \<Rightarrow> if distance > 2 then Inr False else Inr True)))"

text \<open>The specification's estimator, in its own words: the arithmetic mean of the pixel
  bytes, rounded to the nearest integer.\<close>

definition spec_round_mean :: "u8 list \<Rightarrow> int" where
  "spec_round_mean bytes =
     round (rat_of_int (sum_list (map uint bytes)) / rat_of_nat (length bytes))"

subsection \<open>The services and their polling loops\<close>

text \<open>The two services poll. What one pass of a polling loop observes is a \<^verbatim>\<open>poll\<close>:
  the answers of \<^verbatim>\<open>ros::ok()\<close>, of \<^verbatim>\<open>pylon_camera_->isReady()\<close>, of
  \<^verbatim>\<open>pylon_camera_->currentExposure()\<close> and \<^verbatim>\<open>exposureStep()\<close> and of \<^verbatim>\<open>ros::Time::now()\<close> in
  that pass, and what the callbacks dispatched by \<^verbatim>\<open>ros::spinOnce()\<close> and the other threads
  running during \<^verbatim>\<open>r.sleep()\<close> have done to the node when the pass ends: the value they
  wrote to \<^verbatim>\<open>brightness_service_running_\<close> and the frame they grabbed into
  \<^verbatim>\<open>img_raw_msg_.data\<close>, if any. Exposures are \<^verbatim>\<open>float\<close>s in the source; here they are the
  rational numbers that finite floats are, which \<^verbatim>\<open>!=\<close> and \<^verbatim>\<open><\<close> compare exactly.\<close>

record poll =
  ros_ok :: bool
  isReady :: bool
  currentExposure :: rat
  exposureStep :: rat
  now :: time
  running_set :: "bool option"
  frame_set :: "u8 list option"

definition spinOnce :: "poll \<Rightarrow> node \<Rightarrow> node" where
  "spinOnce p s =
     s\<lparr>spin_calls := Suc (spin_calls s),
       brightness_service_running :=
         (case running_set p of None \<Rightarrow> brightness_service_running s | Some b \<Rightarrow> b),
       img_raw_data := (case frame_set p of None \<Rightarrow> img_raw_data s | Some frame \<Rightarrow> frame)\<rparr>"

text \<open>How a service call ends within the polls it is given: it returns true with
  \<^verbatim>\<open>res.success\<close> set (\<^verbatim>\<open>Responded\<close>), the process stops (\<^verbatim>\<open>Crashed\<close>), or the polls run out
  with the call still in a loop (\<^verbatim>\<open>Waiting\<close>). A loop ends through its condition (\<^verbatim>\<open>Left\<close>),
  through the return of its deadline branch (\<^verbatim>\<open>Expired\<close>), or not within the polls
  (\<^verbatim>\<open>Unfinished\<close>).\<close>

datatype response = Responded bool | Crashed fault | Waiting

datatype loop_exit = Left | Expired | Unfinished

text \<open>\<^verbatim>\<open>setExposureCallback\<close> (lines 249-292). What it observes before the loop: the
  answer of \<^verbatim>\<open>isReady()\<close>, the exposure read at line 258 and the clock at line 268. The
  loop of lines 269-289 returns from inside on convergence and on the deadline; when
  \<^verbatim>\<open>ros::ok()\<close> fails the function returns with \<^verbatim>\<open>res.success\<close> as it stands, false (the
  response is constructed with false, and a pass that does not return leaves false).\<close>

record exposure_env =
  exp_ready :: bool
  exp_current :: rat
  exp_start :: time
  exp_polls :: "poll list"

text \<open>The difference of line 273 is a \<^verbatim>\<open>float\<close> subtraction, which rounds its result to
  a \<^verbatim>\<open>float\<close>. The subtraction is the parameter \<^verbatim>\<open>fsub\<close> of the loop and of the callback:
  what is proved of them holds whatever the rounding.\<close>

fun setExposure_loop ::
  "(rat \<Rightarrow> rat \<Rightarrow> rat) \<Rightarrow> rat \<Rightarrow> time \<Rightarrow> poll list \<Rightarrow> node \<Rightarrow> response \<times> node" where
  "setExposure_loop fsub target start [] s = (Waiting, s)"
| "setExposure_loop fsub target start (p # ps) s =
     (if \<not> ros_ok p then (Responded False, s)
      else if \<bar>fsub (currentExposure p) target\<bar> < exposureStep p then (Responded True, s)
      else if now p - start > Duration 5 then (Responded False, s)
      else setExposure_loop fsub target start ps (spinOnce p s))"

definition setExposureCallback ::
  "(rat \<Rightarrow> rat \<Rightarrow> rat) \<Rightarrow> rat \<Rightarrow> exposure_env \<Rightarrow> node \<Rightarrow> response \<times> node" where
  "setExposureCallback fsub target env s =
     (if \<not> exp_ready env then (Responded False, s)
      else
        let current_exposure = exp_current env;
            s1 = (if current_exposure \<noteq> target
                  then s\<lparr>exposure_writes := exposure_writes s @ [target]\<rparr> else s)
        in setExposure_loop fsub target (exp_start env) (exp_polls env) s1)"

text \<open>\<^verbatim>\<open>setBrightnessCallback\<close> (lines 294-363). What it observes: the first answer of
  \<^verbatim>\<open>isReady()\<close> (line 299), the clock at line 302 and the polls of the readiness loop
  (lines 303-313), what the \<^verbatim>\<open>ros::spinOnce()\<close> of line 317 leaves behind, the clock at
  line 347 and the polls of the convergence loop (lines 348-359).\<close>

record brightness_env =
  ready_first :: bool
  ready_start :: time
  ready_polls :: "poll list"
  image_spin :: poll
  wait_start :: time
  wait_polls :: "poll list"

fun ready_loop :: "time \<Rightarrow> poll list \<Rightarrow> node \<Rightarrow> loop_exit \<times> node" where
  "ready_loop start [] s = (Unfinished, s)"
| "ready_loop start (p # ps) s =
     (if \<not> (ros_ok p \<and> \<not> isReady p) then (Left, s)
      else if now p - start > Duration 3 then (Expired, s)
      else ready_loop start ps (spinOnce p s))"

fun brightness_loop :: "time \<Rightarrow> time \<Rightarrow> poll list \<Rightarrow> node \<Rightarrow> loop_exit \<times> node" where
  "brightness_loop duration start [] s = (Unfinished, s)"
| "brightness_loop duration start (p # ps) s =
     (if \<not> (ros_ok p \<and> brightness_service_running s) then (Left, s)
      else if now p - start > duration
      then (Expired, s\<lparr>brightness_service_running := False\<rparr>)
      else brightness_loop duration start ps (spinOnce p s))"

text \<open>Lines 299-335: up to the corrective write. The call has returned (or stopped) by
  then, on the left, or goes on to the convergence wait with the node on the right.\<close>

definition setBrightness_request ::
  "bool \<Rightarrow> int \<Rightarrow> brightness_env \<Rightarrow> node \<Rightarrow> response \<times> node + node" where
  "setBrightness_request ndebug target env s =
     (case (if \<not> ready_first env then ready_loop (ready_start env) (ready_polls env) s
            else (Left, s)) of
        (Expired, s1) \<Rightarrow> Inl (Responded False, s1)
      | (Unfinished, s1) \<Rightarrow> Inl (Waiting, s1)
      | (Left, s1) \<Rightarrow>
          let s2 = spinOnce (image_spin env) s1 in
          (case calcCurrentBrightness ndebug s2 of
             Inl f \<Rightarrow> Inl (Crashed f, s2)
           | Inr current_brightness \<Rightarrow>
               let s3 = s2\<lparr>target_brightness := target, brightness_service_running := True\<rparr>
               in if current_brightness \<noteq> target_brightness s3
                  then Inr (s3\<lparr>brightness_writes :=
                                 brightness_writes s3 @ [target_brightness s3]\<rparr>)
                  else Inl (Responded True, s3)))"

text \<open>Lines 337-362: the deadline, the convergence loop and the validation.\<close>

definition setBrightness_wait ::
  "bool \<Rightarrow> int \<Rightarrow> time \<Rightarrow> poll list \<Rightarrow> node \<Rightarrow> response \<times> node" where
  "setBrightness_wait ndebug target start polls s =
     (let duration = (if target_brightness s > 205 then Duration 15 else Duration 5)
      in case brightness_loop duration start polls s of
           (Expired, s1) \<Rightarrow> (Responded False, s1)
         | (Unfinished, s1) \<Rightarrow> (Waiting, s1)
         | (Left, s1) \<Rightarrow>
             (case brightnessValidation ndebug target s1 of
                Inl f \<Rightarrow> (Crashed f, s1)
              | Inr valid \<Rightarrow> (Responded valid, s1)))"

definition setBrightnessCallback ::
  "bool \<Rightarrow> int \<Rightarrow> brightness_env \<Rightarrow> node \<Rightarrow> response \<times> node" where
  "setBrightnessCallback ndebug target env s =
     (case setBrightness_request ndebug target env s of
        Inl returned \<Rightarrow> returned
      | Inr s1 \<Rightarrow> setBrightness_wait ndebug target (wait_start env) (wait_polls env) s1)"

subsection \<open>Facts about the estimator\<close>

lemma sum_list_uint_bounds:
  "0 \<le> sum_list (map uint (bytes :: u8 list)) \<and>
   sum_list (map uint bytes) \<le> 255 * int (length bytes)"
proof (induction bytes)
  case Nil
  show ?case by simp
next
  case (Cons b bs)
  have "uint b < 2 ^ 8" using uint_bounded [of b] by simp
  then have "uint b \<le> 255" by simp
  moreover have "0 \<le> uint b" by simp
  ultimately show ?case using Cons.IH by (simp add: algebra_simps)
qed

lemma floor_mean: "\<lfloor>rat_of_int a / rat_of_nat n\<rfloor> = a div int n"
proof -
  have "rat_of_nat n = rat_of_int (int n)" by simp
  then show ?thesis by (simp only: floor_divide_of_int_eq)
qed

lemma mean_bounds:
  assumes "(bytes :: u8 list) \<noteq> []"
  shows "0 \<le> sum_list (map uint bytes) div int (length bytes) \<and>
         sum_list (map uint bytes) div int (length bytes) \<le> 255"
proof -
  let ?sum = "sum_list (map uint bytes)"
  let ?n = "int (length bytes)"
  have b: "0 \<le> ?sum \<and> ?sum \<le> 255 * ?n" by (rule sum_list_uint_bounds)
  have n: "0 < ?n" using assms by simp
  have "0 \<le> ?sum div ?n" using b n by (simp add: pos_imp_zdiv_nonneg_iff)
  moreover have "?sum div ?n \<le> (255 * ?n) div ?n" using b n by (intro zdiv_mono1) auto
  ultimately show ?thesis using n by simp
qed

lemma accumulate_eq:
  assumes "INT_MIN \<le> init" and "init \<le> INT_MAX"
  shows "accumulate bytes init =
     (if init + sum_list (map uint bytes) \<le> INT_MAX
      then Inr (init + sum_list (map uint bytes)) else Inl SignedOverflow)"
  using assms
proof (induction bytes arbitrary: init)
  case Nil
  then show ?case by simp
next
  case (Cons b bytes)
  have rest: "0 \<le> sum_list (map uint bytes)" using sum_list_uint_bounds [of bytes] by simp
  have byte: "0 \<le> uint b" by simp
  show ?case
  proof (cases "init + uint b \<le> INT_MAX")
    case True
    have low: "INT_MIN \<le> init + uint b" using Cons.prems(1) byte by linarith
    then have "int_result (init + uint b) = Inr (init + uint b)"
      using True by (simp add: int_result_def)
    with low show ?thesis using Cons.IH [of "init + uint b"] True by (simp add: add.assoc)
  next
    case False
    then have "int_result (init + uint b) = Inl SignedOverflow" by (simp add: int_result_def)
    moreover have "\<not> init + sum_list (map uint (b # bytes)) \<le> INT_MAX"
    proof -
      have "init + uint b \<le> init + sum_list (map uint (b # bytes))" using rest by simp
      then show ?thesis using False by linarith
    qed
    ultimately show ?thesis by simp
  qed
qed

lemma calcCurrentBrightness_eq:
  "calcCurrentBrightness ndebug s =
     (if INT_MAX < sum_list (map uint (img_raw_data s)) then Inl SignedOverflow
      else if img_raw_data s = [] then Inl (if ndebug then DivisionByZero else AssertionFailed)
      else Inr (sum_list (map uint (img_raw_data s)) div int (length (img_raw_data s))))"
proof -
  have "accumulate (img_raw_data s) 0 =
     (if sum_list (map uint (img_raw_data s)) \<le> INT_MAX
      then Inr (sum_list (map uint (img_raw_data s))) else Inl SignedOverflow)"
    using accumulate_eq [of 0 "img_raw_data s"] by (simp add: INT_MIN_def INT_MAX_def)
  then show ?thesis by (simp add: calcCurrentBrightness_def)
qed

lemma sum_list_replicate_255:
  "sum_list (map uint (replicate n (255 :: u8))) = 255 * int n"
  by (induction n) simp_all

lemma brightnessValidation_eq:
  assumes "img_raw_data s \<noteq> []"
    and "sum_list (map uint (img_raw_data s)) \<le> INT_MAX"
    and "INT_MIN + 255 < target" and "target \<le> INT_MAX"
  shows "brightnessValidation ndebug target s =
     Inr (\<bar>target - sum_list (map uint (img_raw_data s)) div int (length (img_raw_data s))\<bar> \<le> 2)"
proof -
  let ?mean = "sum_list (map uint (img_raw_data s)) div int (length (img_raw_data s))"
  have calc: "calcCurrentBrightness ndebug s = Inr ?mean"
    using assms(1,2) by (simp add: calcCurrentBrightness_eq)
  have mean: "0 \<le> ?mean \<and> ?mean \<le> 255" using mean_bounds [OF assms(1)] .
  have "INT_MIN \<le> target - ?mean \<and> target - ?mean \<le> INT_MAX"
    using mean assms(3,4) unfolding INT_MIN_def INT_MAX_def by linarith
  then have diff: "int_result (target - ?mean) = Inr (target - ?mean)"
    by (simp add: int_result_def)
  have "INT_MIN \<le> \<bar>target - ?mean\<bar> \<and> \<bar>target - ?mean\<bar> \<le> INT_MAX"
    using mean assms(3,4) unfolding INT_MIN_def INT_MAX_def by linarith
  then have dist: "int_result \<bar>target - ?mean\<bar> = Inr \<bar>target - ?mean\<bar>"
    by (simp add: int_result_def)
  show ?thesis by (auto simp: brightnessValidation_def calc diff dist)
qed

subsection \<open>Facts about the two burst loops\<close>

lemma grabSequence_loop_0: "grabSequence_loop dev clk mid 0 st = st"
  by (simp add: grabSequence_loop_def)

lemma grabSequence_loop_Suc:
  "grabSequence_loop dev clk mid (Suc k) st =
     grabSequence_body dev clk mid k (grabSequence_loop dev clk mid k st)"
  by (simp add: grabSequence_loop_def)

lemma grabSequence_body_grabbed:
  assumes "dev (grab_calls s) = Grabbed frame"
  shows "grabSequence_body dev clk mid i (True, tmp, s) =
     (True, frame,
      if i = mid
      then s\<lparr>grab_calls := Suc (grab_calls s), img_raw_data := frame,
             img_raw_stamp := clk (now_calls s), now_calls := Suc (now_calls s)\<rparr>
      else s\<lparr>grab_calls := Suc (grab_calls s)\<rparr>)"
  using assms by (simp add: grabSequence_body_def Let_def)

lemma grabSequence_loop_all_grabbed:
  assumes "\<forall>i<k. dev (grab_calls s + i) = Grabbed (frames i)"
  shows "grabSequence_loop dev clk mid k (True, tmp, s) =
     (True, (if k = 0 then tmp else frames (k - 1)),
      if mid < k
      then s\<lparr>grab_calls := grab_calls s + k, img_raw_data := frames mid,
             img_raw_stamp := clk (now_calls s), now_calls := Suc (now_calls s)\<rparr>
      else s\<lparr>grab_calls := grab_calls s + k\<rparr>)"
  using assms
proof (induction k)
  case 0
  show ?case by (simp add: grabSequence_loop_0)
next
  case (Suc k)
  have prev: "\<forall>i<k. dev (grab_calls s + i) = Grabbed (frames i)" using Suc.prems by simp
  have this_one: "dev (grab_calls s + k) = Grabbed (frames k)" using Suc.prems by simp
  consider "mid < k" | "mid = k" | "k < mid" by linarith
  then show ?case
  proof cases
    case 1
    then show ?thesis
      unfolding grabSequence_loop_Suc Suc.IH [OF prev]
      by (simp add: grabSequence_body_grabbed [where frame = "frames k"] this_one)
  next
    case 2
    then show ?thesis
      unfolding grabSequence_loop_Suc Suc.IH [OF prev]
      by (simp add: grabSequence_body_grabbed [where frame = "frames k"] this_one)
  next
    case 3
    then show ?thesis
      unfolding grabSequence_loop_Suc Suc.IH [OF prev]
      by (simp add: grabSequence_body_grabbed [where frame = "frames k"] this_one)
  qed
qed

lemma grabSequence_loop_fields:
  "fst (grabSequence_loop dev clk mid k (success, tmp, s)) =
     (success \<and> (\<forall>i<k. grab_ok (dev (grab_calls s + i)))) \<and>
   grab_calls (snd (snd (grabSequence_loop dev clk mid k (success, tmp, s)))) = grab_calls s + k \<and>
   (k \<le> mid \<or> \<not> success \<or> (\<exists>j<k. j \<le> mid \<and> \<not> grab_ok (dev (grab_calls s + j))) \<longrightarrow>
      img_raw_data (snd (snd (grabSequence_loop dev clk mid k (success, tmp, s)))) = img_raw_data s \<and>
      img_raw_stamp (snd (snd (grabSequence_loop dev clk mid k (success, tmp, s)))) = img_raw_stamp s)"
proof (induction k)
  case 0
  show ?case by (simp add: grabSequence_loop_0)
next
  case (Suc k)
  obtain b t s' where st: "grabSequence_loop dev clk mid k (success, tmp, s) = (b, t, s')"
    by (cases "grabSequence_loop dev clk mid k (success, tmp, s)") auto
  from Suc.IH st have b: "b = (success \<and> (\<forall>i<k. grab_ok (dev (grab_calls s + i))))"
    and g: "grab_calls s' = grab_calls s + k"
    and u: "k \<le> mid \<or> \<not> success \<or> (\<exists>j<k. j \<le> mid \<and> \<not> grab_ok (dev (grab_calls s + j))) \<Longrightarrow>
      img_raw_data s' = img_raw_data s \<and> img_raw_stamp s' = img_raw_stamp s"
    by simp_all
  have 1: "fst (grabSequence_body dev clk mid k (b, t, s')) = (b \<and> grab_ok (dev (grab_calls s + k)))"
    by (simp add: grabSequence_body_def Let_def g)
  have 2: "grab_calls (snd (snd (grabSequence_body dev clk mid k (b, t, s')))) = grab_calls s + Suc k"
    by (simp add: grabSequence_body_def Let_def g)
  have 3: "img_raw_data (snd (snd (grabSequence_body dev clk mid k (b, t, s')))) = img_raw_data s \<and>
           img_raw_stamp (snd (snd (grabSequence_body dev clk mid k (b, t, s')))) = img_raw_stamp s"
    if c: "Suc k \<le> mid \<or> \<not> success \<or> (\<exists>j<Suc k. j \<le> mid \<and> \<not> grab_ok (dev (grab_calls s + j)))"
  proof -
    from c have unchanged: "img_raw_data s' = img_raw_data s \<and> img_raw_stamp s' = img_raw_stamp s"
      using u less_Suc_eq by auto
    from c have "k \<noteq> mid \<or> \<not> (b \<and> grab_ok (dev (grab_calls s + k)))"
      using b less_Suc_eq by auto
    then show ?thesis using unchanged
      by (auto simp: grabSequence_body_def Let_def g)
  qed
  show ?case
    unfolding grabSequence_loop_Suc st
    using 1 2 3 b by (auto simp: less_Suc_eq)
qed


lemma sequenceRaw_loop_Suc:
  "sequenceRaw_loop cam dev clk (Suc k) st =
     sequenceRaw_body cam dev clk k (sequenceRaw_loop cam dev clk k st)"
  by (simp add: sequenceRaw_loop_def)

lemma sequenceRaw_loop_fields:
  "res_success (fst (sequenceRaw_loop cam dev clk k (result, s))) =
     (res_success result \<and> (\<forall>i<k. grab_ok (dev (grab_calls s + i)))) \<and>
   grab_calls (snd (sequenceRaw_loop cam dev clk k (result, s))) = grab_calls s + k \<and>
   shutdown_calls (snd (sequenceRaw_loop cam dev clk k (result, s))) = shutdown_calls s \<and>
   length (res_images (fst (sequenceRaw_loop cam dev clk k (result, s)))) =
     length (res_images result) \<and>
   res_exposure_times (fst (sequenceRaw_loop cam dev clk k (result, s))) =
     res_exposure_times result"
proof (induction k)
  case 0
  show ?case by (simp add: sequenceRaw_loop_def)
next
  case (Suc k)
  obtain r s' where st: "sequenceRaw_loop cam dev clk k (result, s) = (r, s')"
    by (cases "sequenceRaw_loop cam dev clk k (result, s)") auto
  show ?case
    using Suc.IH unfolding sequenceRaw_loop_Suc st
    by (auto simp: sequenceRaw_body_def Let_def less_Suc_eq)
qed

lemma sequence_action_all_grabbed:
  assumes "\<forall>i<length desired_seq_exp_times. grab_ok (dev (grab_calls s + i))"
  shows "res_success (fst (sequenceRawActionExecuteCB cam dev clk desired_seq_exp_times s)) \<and>
         length (res_images (fst (sequenceRawActionExecuteCB cam dev clk desired_seq_exp_times s))) =
           length desired_seq_exp_times \<and>
         res_exposure_times (fst (sequenceRawActionExecuteCB cam dev clk desired_seq_exp_times s)) =
           desired_seq_exp_times"
proof -
  let ?n = "length desired_seq_exp_times"
  let ?init = "\<lparr>res_images = replicate ?n default_image,
                 res_exposure_times = desired_seq_exp_times, res_success = True\<rparr>"
  obtain r s' where st: "sequenceRaw_loop cam dev clk ?n (?init, s) = (r, s')"
    by (cases "sequenceRaw_loop cam dev clk ?n (?init, s)") auto
  have "res_success r \<and> length (res_images r) = ?n \<and> res_exposure_times r = desired_seq_exp_times"
    using sequenceRaw_loop_fields [of cam dev clk ?n ?init s] st assms by simp
  then show ?thesis by (simp add: sequenceRawActionExecuteCB_def Let_def st)
qed

subsection \<open>Facts about the polling loops\<close>

lemma setExposure_loop_writes:
  "exposure_writes (snd (setExposure_loop fsub target start ps s)) = exposure_writes s"
  by (induction ps arbitrary: s) (simp_all add: spinOnce_def)

lemma ready_loop_writes:
  "brightness_writes (snd (ready_loop start ps s)) = brightness_writes s"
  by (induction ps arbitrary: s) (simp_all add: spinOnce_def)

lemma brightness_loop_Expired:
  "brightness_loop duration start ps s = (Expired, s1) \<Longrightarrow> \<not> brightness_service_running s1"
  by (induction ps arbitrary: s) (auto split: if_splits)

lemma brightness_loop_never_clears:
  assumes "brightness_service_running s"
    and "\<forall>p\<in>set ps. ros_ok p \<and> running_set p \<noteq> Some False"
    and "\<exists>p\<in>set ps. now p - start > duration"
  shows "fst (brightness_loop duration start ps s) = Expired \<and>
         spin_calls (snd (brightness_loop duration start ps s)) =
           spin_calls s + length (takeWhile (\<lambda>p. now p - start \<le> duration) ps)"
  using assms
proof (induction ps arbitrary: s)
  case Nil
  then show ?case by simp
next
  case (Cons p ps)
  show ?case
  proof (cases "now p - start > duration")
    case True
    then show ?thesis using Cons.prems by simp
  next
    case False
    have run: "brightness_service_running (spinOnce p s)"
      using Cons.prems(1,2) by (cases "running_set p") (auto simp: spinOnce_def)
    have rest: "\<forall>q\<in>set ps. ros_ok q \<and> running_set q \<noteq> Some False"
      using Cons.prems(2) by simp
    have later: "\<exists>q\<in>set ps. now q - start > duration"
      using Cons.prems(3) False by auto
    have spins: "spin_calls (spinOnce p s) = Suc (spin_calls s)"
      by (simp add: spinOnce_def)
    show ?thesis
      using Cons.IH [OF run rest later] False Cons.prems(1,2) spins by simp
  qed
qed

subsection \<open>Device removal on the grab paths\<close>

text \<open>C1: every grab path should answer a failed grab under a removed device with the
  fatal signal. The sequence-capture action callback does not: with one configured exposure
  and a device whose grab fails and which reports removed, it hands an ordinary failed result
  (no frames, \<^verbatim>\<open>success = false\<close>) to \<^verbatim>\<open>setSucceeded\<close> and \<^verbatim>\<open>ros::shutdown\<close> is not called,
  while \<^verbatim>\<open>grabImage\<close> and \<^verbatim>\<open>grabSequence\<close>, on the same device, each call it once.\<close>

theorem sequence_action_ignores_device_removal:
  "fst (sequenceRawActionExecuteCB cam (\<lambda>k. Failed True None) clk [e] s) =
     \<lparr>res_images = [], res_exposure_times = [e], res_success = False\<rparr> \<and>
   shutdown_calls (snd (sequenceRawActionExecuteCB cam (\<lambda>k. Failed True None) clk [e] s)) =
     shutdown_calls s \<and>
   fst (grabImage (\<lambda>k. Failed True None) clk s) = False \<and>
   shutdown_calls (snd (grabImage (\<lambda>k. Failed True None) clk s)) = Suc (shutdown_calls s) \<and>
   fst (grabSequence (\<lambda>k. Failed True None) clk [e] s) = False \<and>
   shutdown_calls (snd (grabSequence (\<lambda>k. Failed True None) clk [e] s)) = Suc (shutdown_calls s)"
  by (simp add: sequenceRawActionExecuteCB_def sequenceRaw_loop_def sequenceRaw_body_def
      grabImage_def grabSequence_def grabSequence_loop_def grabSequence_body_def Let_def)

subsection \<open>The sequence-capture action\<close>

text \<open>C2: if any grab of the burst fails, whichever it is and whatever the other grabs
  of the burst delivered, the reported result has \<^verbatim>\<open>success = false\<close> and no frames.\<close>

theorem sequence_action_failure_clears_frames:
  assumes "j < length desired_seq_exp_times"
    and "\<not> grab_ok (dev (grab_calls s + j))"
  shows "res_success (fst (sequenceRawActionExecuteCB cam dev clk desired_seq_exp_times s)) = False \<and>
         res_images (fst (sequenceRawActionExecuteCB cam dev clk desired_seq_exp_times s)) = []"
proof -
  let ?n = "length desired_seq_exp_times"
  let ?init = "\<lparr>res_images = replicate ?n default_image,
                 res_exposure_times = desired_seq_exp_times, res_success = True\<rparr>"
  obtain r s' where st: "sequenceRaw_loop cam dev clk ?n (?init, s) = (r, s')"
    by (cases "sequenceRaw_loop cam dev clk ?n (?init, s)") auto
  have "res_success r = (\<forall>i<?n. grab_ok (dev (grab_calls s + i)))"
    using sequenceRaw_loop_fields [of cam dev clk ?n ?init s] st by simp
  then have "\<not> res_success r" using assms by auto
  then show ?thesis by (simp add: sequenceRawActionExecuteCB_def Let_def st)
qed

theorem sequence_action_failure_clears_frames_witness:
  "res_success (fst (sequenceRawActionExecuteCB
       \<lparr>imageEncoding = ''mono8'', imageRows = 1, imageCols = 2, imagePixelDepth = 1\<rparr>
       (\<lambda>k. if k = 2 then Failed False None else Grabbed [10, 20])
       (\<lambda>k. int k) [100, 200, 300] PylonCameraNode)) = False \<and>
   res_images (fst (sequenceRawActionExecuteCB
       \<lparr>imageEncoding = ''mono8'', imageRows = 1, imageCols = 2, imagePixelDepth = 1\<rparr>
       (\<lambda>k. if k = 2 then Failed False None else Grabbed [10, 20])
       (\<lambda>k. int k) [100, 200, 300] PylonCameraNode)) = []"
  using sequence_action_failure_clears_frames [of 2 "[100, 200, 300]"
      "\<lambda>k. if k = 2 then Failed False None else Grabbed [10, 20]" PylonCameraNode]
  by (simp add: PylonCameraNode_def)

subsection \<open>The burst grab and the frame buffer\<close>

text \<open>C4: in a burst of N \<ge> 1 grabs that all succeed, the i-th grab of the burst
  delivering the frame \<^verbatim>\<open>frames i\<close>, \<^verbatim>\<open>grabSequence\<close> returns true having made N grabs
  in order, the frame buffer holds the frame of index N div 2 stamped with the one clock
  reading taken during the burst (which the camera info and the exposure-times message
  share), and at every point of the loop the buffer holds either the frame from before the
  burst (up to the middle iteration) or the middle frame (after it), never another frame of
  the burst.\<close>

theorem grabSequence_publishes_middle_frame:
  assumes "1 \<le> length desired_seq_exp_times"
    and "\<forall>i<length desired_seq_exp_times. dev (grab_calls s + i) = Grabbed (frames i)"
  shows "grabSequence dev clk desired_seq_exp_times s =
     (True, s\<lparr>grab_calls := grab_calls s + length desired_seq_exp_times,
               img_raw_data := frames (length desired_seq_exp_times div 2),
               img_raw_stamp := clk (now_calls s),
               now_calls := Suc (now_calls s),
               cam_info_stamp := clk (now_calls s),
               exp_times_stamp := clk (now_calls s)\<rparr>) \<and>
     (\<forall>k\<le>length desired_seq_exp_times.
        img_raw_data (snd (snd (grabSequence_loop dev clk (length desired_seq_exp_times div 2) k
          (True, [], s)))) =
        (if k \<le> length desired_seq_exp_times div 2 then img_raw_data s
         else frames (length desired_seq_exp_times div 2)))"
proof -
  let ?n = "length desired_seq_exp_times"
  have mid: "?n div 2 < ?n" using assms(1) by simp
  have ne: "desired_seq_exp_times \<noteq> []" using assms(1) by auto
  have final: "grabSequence_loop dev clk (?n div 2) ?n (True, [], s) =
     (True, frames (?n - 1),
      s\<lparr>grab_calls := grab_calls s + ?n, img_raw_data := frames (?n div 2),
        img_raw_stamp := clk (now_calls s), now_calls := Suc (now_calls s)\<rparr>)"
    using grabSequence_loop_all_grabbed [OF assms(2), of clk "?n div 2" "[]"] mid ne
    by simp
  have prefix: "img_raw_data (snd (snd (grabSequence_loop dev clk (?n div 2) k (True, [], s)))) =
        (if k \<le> ?n div 2 then img_raw_data s else frames (?n div 2))" if "k \<le> ?n" for k
  proof -
    have "\<forall>i<k. dev (grab_calls s + i) = Grabbed (frames i)" using assms(2) that by simp
    from grabSequence_loop_all_grabbed [OF this, of clk "?n div 2" "[]"]
    show ?thesis by simp
  qed
  show ?thesis using prefix by (simp add: grabSequence_def Let_def final)
qed

theorem grabSequence_publishes_middle_frame_witness:
  "grabSequence (\<lambda>k. Grabbed [word_of_nat k]) (\<lambda>k. 5 + int k) [100, 200, 300]
     (PylonCameraNode\<lparr>img_raw_data := [9]\<rparr>) =
   (True, PylonCameraNode\<lparr>img_raw_data := [1], img_raw_stamp := 5, cam_info_stamp := 5,
            exp_times_stamp := 5, grab_calls := 3, now_calls := 1\<rparr>)"
  using grabSequence_publishes_middle_frame [of "[100, 200, 300]"
      "\<lambda>k. Grabbed [word_of_nat k]" "PylonCameraNode\<lparr>img_raw_data := [9]\<rparr>"
      "\<lambda>i. [word_of_nat i]" "\<lambda>k. 5 + int k"]
  by (simp add: PylonCameraNode_def)

text \<open>C5, as stated, fails: three exposures, the first two grabs succeed and the third
  fails with the device still present. \<^verbatim>\<open>grabSequence\<close> returns false, yet the frame
  buffer, which held the bytes [9] stamped 1, now holds the middle frame [2] stamped 7.\<close>

theorem grabSequence_failure_alters_frame_buffer:
  "\<not> grab_ok (Failed False None) \<and>
   fst (grabSequence (\<lambda>k. if k < 2 then Grabbed [word_of_nat k + 1] else Failed False None)
          (\<lambda>k. 7) [100, 200, 300] (PylonCameraNode\<lparr>img_raw_data := [9], img_raw_stamp := 1\<rparr>)) = False \<and>
   img_raw_data (snd (grabSequence
          (\<lambda>k. if k < 2 then Grabbed [word_of_nat k + 1] else Failed False None)
          (\<lambda>k. 7) [100, 200, 300] (PylonCameraNode\<lparr>img_raw_data := [9], img_raw_stamp := 1\<rparr>))) = [2] \<and>
   img_raw_stamp (snd (grabSequence
          (\<lambda>k. if k < 2 then Grabbed [word_of_nat k + 1] else Failed False None)
          (\<lambda>k. 7) [100, 200, 300] (PylonCameraNode\<lparr>img_raw_data := [9], img_raw_stamp := 1\<rparr>))) = 7"
  by (simp add: grabSequence_def grabSequence_loop_def grabSequence_body_def PylonCameraNode_def
      upt_rec Let_def)

text \<open>C5, amended: whenever a grab of the burst fails, \<^verbatim>\<open>grabSequence\<close> returns false;
  and when the failing grab is at an index up to the middle index N div 2, the frame
  buffer (pixel data and stamp) is what it was before the burst.\<close>

theorem grabSequence_failure_up_to_middle:
  assumes "j < length desired_seq_exp_times"
    and "\<not> grab_ok (dev (grab_calls s + j))"
  shows "fst (grabSequence dev clk desired_seq_exp_times s) = False \<and>
     (j \<le> length desired_seq_exp_times div 2 \<longrightarrow>
        img_raw_data (snd (grabSequence dev clk desired_seq_exp_times s)) = img_raw_data s \<and>
        img_raw_stamp (snd (grabSequence dev clk desired_seq_exp_times s)) = img_raw_stamp s)"
proof -
  let ?n = "length desired_seq_exp_times"
  obtain b t s' where st: "grabSequence_loop dev clk (?n div 2) ?n (True, [], s) = (b, t, s')"
    by (cases "grabSequence_loop dev clk (?n div 2) ?n (True, [], s)") auto
  from grabSequence_loop_fields [of dev clk "?n div 2" ?n True "[]" s] st
  have b: "b = (\<forall>i<?n. grab_ok (dev (grab_calls s + i)))"
    and u: "(\<exists>j<?n. j \<le> ?n div 2 \<and> \<not> grab_ok (dev (grab_calls s + j))) \<Longrightarrow>
      img_raw_data s' = img_raw_data s \<and> img_raw_stamp s' = img_raw_stamp s"
    by simp_all
  have "\<not> b" using b assms by auto
  moreover have "j \<le> ?n div 2 \<Longrightarrow> img_raw_data s' = img_raw_data s \<and> img_raw_stamp s' = img_raw_stamp s"
    using u assms by blast
  ultimately show ?thesis by (simp add: grabSequence_def Let_def st)
qed

theorem grabSequence_failure_up_to_middle_witness:
  "fst (grabSequence (\<lambda>k. if k = 1 then Failed False None else Grabbed [7]) (\<lambda>k. 7)
          [100, 200, 300] (PylonCameraNode\<lparr>img_raw_data := [9], img_raw_stamp := 1\<rparr>)) = False \<and>
   img_raw_data (snd (grabSequence (\<lambda>k. if k = 1 then Failed False None else Grabbed [7]) (\<lambda>k. 7)
          [100, 200, 300] (PylonCameraNode\<lparr>img_raw_data := [9], img_raw_stamp := 1\<rparr>))) = [9] \<and>
   img_raw_stamp (snd (grabSequence (\<lambda>k. if k = 1 then Failed False None else Grabbed [7]) (\<lambda>k. 7)
          [100, 200, 300] (PylonCameraNode\<lparr>img_raw_data := [9], img_raw_stamp := 1\<rparr>))) = 1"
  using grabSequence_failure_up_to_middle [of 1 "[100, 200, 300]"
      "\<lambda>k. if k = 1 then Failed False None else Grabbed [7]"
      "PylonCameraNode\<lparr>img_raw_data := [9], img_raw_stamp := 1\<rparr>" "\<lambda>k. 7"]
  by (simp add: PylonCameraNode_def)

subsection \<open>The brightness estimator\<close>

text \<open>C6, as stated, fails: for the pixels 0, 1, 1 the mean is 2/3, which rounds to 1,
  and \<^verbatim>\<open>calcCurrentBrightness\<close> returns 0.\<close>

theorem brightness_is_not_rounded_mean:
  "calcCurrentBrightness False (PylonCameraNode\<lparr>img_raw_data := [0, 1, 1]\<rparr>) = Inr 0 \<and>
   spec_round_mean [0, 1, 1] = 1"
proof -
  have "round (2 / 3 :: rat) = 1"
    unfolding round_def by (simp add: floor_eq_iff)
  then show ?thesis
    by (simp add: spec_round_mean_def calcCurrentBrightness_eq PylonCameraNode_def INT_MAX_def)
qed

text \<open>C6, amended: for every populated frame buffer whose pixel bytes sum to at most
  2147483647, the largest \<^verbatim>\<open>int\<close> (so for every frame of up to 8421504 bytes), the
  brightness is the arithmetic mean of the pixel bytes rounded down to an integer (the floor
  of the mean).\<close>

theorem brightness_is_floor_of_mean:
  assumes "img_raw_data s \<noteq> []"
    and "sum_list (map uint (img_raw_data s)) \<le> 2147483647 \<or>
         length (img_raw_data s) \<le> 8421504"
  shows "calcCurrentBrightness ndebug s =
     Inr \<lfloor>rat_of_int (sum_list (map uint (img_raw_data s))) / rat_of_nat (length (img_raw_data s))\<rfloor>"
proof -
  have "sum_list (map uint (img_raw_data s)) \<le> 255 * int (length (img_raw_data s))"
    using sum_list_uint_bounds [of "img_raw_data s"] by simp
  then have "sum_list (map uint (img_raw_data s)) \<le> INT_MAX"
    using assms(2) by (auto simp: INT_MAX_def)
  then show ?thesis
    using assms(1) by (simp add: calcCurrentBrightness_eq floor_mean)
qed

theorem brightness_is_floor_of_mean_witness:
  "calcCurrentBrightness False (PylonCameraNode\<lparr>img_raw_data := [0, 1, 1]\<rparr>) =
     Inr \<lfloor>(2 :: rat) / 3\<rfloor>"
  using brightness_is_floor_of_mean [of "PylonCameraNode\<lparr>img_raw_data := [0, 1, 1]\<rparr>" False]
  by (simp add: PylonCameraNode_def)

text \<open>What does hold of \<^verbatim>\<open>calcCurrentBrightness\<close> and its callers: on a non-empty buffer
  whose bytes sum to at most \<^verbatim>\<open>INT_MAX\<close> the result is the truncated mean, from 0 to 255; on
  an empty buffer there is no result (the assertion fails, or without assertions the size
  divides as zero), neither for the validation step nor for the brightness service when the
  buffer is still empty once the device is ready.\<close>

lemma calcCurrentBrightness_defined:
  assumes "img_raw_data s \<noteq> []" and "sum_list (map uint (img_raw_data s)) \<le> INT_MAX"
  shows "calcCurrentBrightness ndebug s =
        Inr (sum_list (map uint (img_raw_data s)) div int (length (img_raw_data s))) \<and>
      0 \<le> sum_list (map uint (img_raw_data s)) div int (length (img_raw_data s)) \<and>
      sum_list (map uint (img_raw_data s)) div int (length (img_raw_data s)) \<le> 255"
  using assms mean_bounds [of "img_raw_data s"] by (simp add: calcCurrentBrightness_eq)

lemma calcCurrentBrightness_empty:
  assumes "img_raw_data s = []"
  shows "calcCurrentBrightness ndebug s =
        Inl (if ndebug then DivisionByZero else AssertionFailed) \<and>
      brightnessValidation ndebug target s =
        Inl (if ndebug then DivisionByZero else AssertionFailed)"
  using assms by (simp add: calcCurrentBrightness_eq brightnessValidation_def INT_MAX_def)

lemma setBrightnessCallback_empty:
  assumes "(if \<not> ready_first env then ready_loop (ready_start env) (ready_polls env) s0
            else (Left, s0)) = (Left, s1)"
    and "img_raw_data (spinOnce (image_spin env) s1) = []"
  shows "setBrightnessCallback ndebug target env s0 =
        (Crashed (if ndebug then DivisionByZero else AssertionFailed),
         spinOnce (image_spin env) s1)"
  using assms calcCurrentBrightness_empty [OF assms(2), of ndebug target]
  by (simp add: setBrightnessCallback_def setBrightness_request_def Let_def)

text \<open>C10: every non-empty buffer should give the truncated mean of its bytes, a value
  from 0 to 255. It does not for a frame of 8421505 bytes that are all 255 (a saturated
  frame of an 8.4 megapixel sensor): the truncated mean is 255, but the bytes sum to
  2147483775, which the \<^verbatim>\<open>int\<close> accumulator of \<^verbatim>\<open>std::accumulate\<close> cannot hold, and the
  function has no defined result. One byte fewer and it returns 255.\<close>

theorem calcCurrentBrightness_sum_overflows:
  "calcCurrentBrightness ndebug (s\<lparr>img_raw_data := replicate 8421505 255\<rparr>) =
     Inl SignedOverflow \<and>
   sum_list (map uint (replicate 8421505 (255 :: u8))) = 2147483775 \<and>
   sum_list (map uint (replicate 8421505 (255 :: u8))) div
     int (length (replicate 8421505 (255 :: u8))) = 255 \<and>
   calcCurrentBrightness ndebug (s\<lparr>img_raw_data := replicate 8421504 255\<rparr>) = Inr 255"
proof -
  have more: "sum_list (map uint (replicate 8421505 (255 :: u8))) = 2147483775"
    by (simp only: sum_list_replicate_255)
  have fewer: "sum_list (map uint (replicate 8421504 (255 :: u8))) = 2147483520"
    by (simp only: sum_list_replicate_255)
  show ?thesis
    using more fewer by (simp add: calcCurrentBrightness_eq INT_MAX_def sum_list_replicate)
qed

subsection \<open>The exposure service\<close>

text \<open>C7: with the device ready, the call writes the exposure to the device exactly when
  the exposure it read differs from the target, by however little and whatever the
  device's exposure step, and then writes it once; the polling loop writes nothing. This
  holds whatever the float subtraction of the convergence test computes.\<close>

theorem setExposure_writes_unless_equal:
  assumes "exp_ready env"
  shows "exposure_writes (snd (setExposureCallback fsub target env s)) =
     (if exp_current env = target then exposure_writes s else exposure_writes s @ [target])"
  using assms by (simp add: setExposureCallback_def Let_def setExposure_loop_writes)

theorem setExposure_writes_unless_equal_witness:
  "fst (setExposureCallback (-) (201 / 2)
      \<lparr>exp_ready = True, exp_current = 100, exp_start = 0,
       exp_polls = [\<lparr>ros_ok = True, isReady = True, currentExposure = 100, exposureStep = 1,
                     now = 0, running_set = None, frame_set = None\<rparr>]\<rparr>
      PylonCameraNode) = Responded True \<and>
   exposure_writes (snd (setExposureCallback (-) (201 / 2)
      \<lparr>exp_ready = True, exp_current = 100, exp_start = 0,
       exp_polls = [\<lparr>ros_ok = True, isReady = True, currentExposure = 100, exposureStep = 1,
                     now = 0, running_set = None, frame_set = None\<rparr>]\<rparr>
      PylonCameraNode)) = [201 / 2]"
  using setExposure_writes_unless_equal [of
      "\<lparr>exp_ready = True, exp_current = 100, exp_start = 0,
        exp_polls = [\<lparr>ros_ok = True, isReady = True, currentExposure = 100, exposureStep = 1,
                      now = 0, running_set = None, frame_set = None\<rparr>]\<rparr>"
      "(-)" "201 / 2" PylonCameraNode]
  by (simp add: setExposureCallback_def PylonCameraNode_def)

subsection \<open>The brightness service\<close>

text \<open>C3, as stated, fails on the deadline path. The frame buffer holds the byte 50 and
  the target is 100, so the call writes to the device and waits; the flag is never cleared;
  after one second a grab leaves the byte 100 in the buffer; the next pass finds six seconds
  elapsed. The call reports failure, although the validation of the latest frame would
  pass.\<close>

theorem setBrightness_deadline_skips_validation:
  "setBrightnessCallback False 100
     \<lparr>ready_first = True, ready_start = 0, ready_polls = [],
      image_spin = \<lparr>ros_ok = True, isReady = True, currentExposure = 0, exposureStep = 0,
                    now = 0, running_set = None, frame_set = None\<rparr>,
      wait_start = 0,
      wait_polls = [\<lparr>ros_ok = True, isReady = True, currentExposure = 0, exposureStep = 0,
                     now = Duration 1, running_set = None, frame_set = Some [100]\<rparr>,
                    \<lparr>ros_ok = True, isReady = True, currentExposure = 0, exposureStep = 0,
                     now = Duration 6, running_set = None, frame_set = None\<rparr>]\<rparr>
     (PylonCameraNode\<lparr>img_raw_data := [50]\<rparr>) =
   (Responded False,
    PylonCameraNode\<lparr>img_raw_data := [100], target_brightness := 100, spin_calls := 2,
      brightness_writes := [100]\<rparr>) \<and>
   brightnessValidation False 100
     (PylonCameraNode\<lparr>img_raw_data := [100], target_brightness := 100, spin_calls := 2,
        brightness_writes := [100]\<rparr>) = Inr True"
  by (simp add: setBrightnessCallback_def setBrightness_request_def setBrightness_wait_def
      brightnessValidation_def calcCurrentBrightness_def int_result_def INT_MIN_def INT_MAX_def spinOnce_def
      PylonCameraNode_def Duration_def Let_def)

text \<open>C3, amended: for a call that issues the corrective write and whose convergence loop
  ends. When the loop ends by the deadline, the flag is force-cleared and failure is reported
  without any validation, whatever the frame buffer holds, even nothing. When the loop ends
  through its condition (the flag cleared, or \<^verbatim>\<open>ros::ok()\<close> failed), the brightness is
  recomputed from the latest frame and success is reported if and only if it is within 2 of
  the target; this for a latest frame that is not empty and whose bytes sum to at most
  2147483647, and an \<^verbatim>\<open>int\<close> target above -2147483393, so that the sum, the difference and
  its absolute value are \<^verbatim>\<open>int\<close>s.\<close>

theorem setBrightness_validates_unless_expired:
  assumes "setBrightness_request ndebug target env s = Inr s1"
    and "brightness_loop (if target > 205 then Duration 15 else Duration 5)
           (wait_start env) (wait_polls env) s1 = (exit, s2)"
    and "exit \<noteq> Unfinished"
  shows "(exit = Expired \<longrightarrow>
            setBrightnessCallback ndebug target env s = (Responded False, s2) \<and>
            \<not> brightness_service_running s2) \<and>
         (exit = Left \<and> img_raw_data s2 \<noteq> [] \<and>
          sum_list (map uint (img_raw_data s2)) \<le> 2147483647 \<and>
          - 2147483393 < target \<and> target \<le> 2147483647 \<longrightarrow>
            setBrightnessCallback ndebug target env s =
              (Responded
                 (\<bar>target - sum_list (map uint (img_raw_data s2)) div
                     int (length (img_raw_data s2))\<bar> \<le> 2),
               s2))"
proof -
  have tb: "target_brightness s1 = target"
    using assms(1)
    by (auto simp: setBrightness_request_def Let_def split: if_splits prod.splits
        loop_exit.splits sum.splits)
  have expired: "setBrightnessCallback ndebug target env s = (Responded False, s2) \<and>
      \<not> brightness_service_running s2" if "exit = Expired"
    using that assms(2) brightness_loop_Expired [of _ "wait_start env" "wait_polls env" s1 s2]
    by (simp add: setBrightnessCallback_def setBrightness_wait_def assms(1) tb)
  have left: "setBrightnessCallback ndebug target env s =
      (Responded (\<bar>target - sum_list (map uint (img_raw_data s2)) div
                    int (length (img_raw_data s2))\<bar> \<le> 2), s2)"
    if "exit = Left" and "img_raw_data s2 \<noteq> []"
      and "sum_list (map uint (img_raw_data s2)) \<le> 2147483647"
      and "- 2147483393 < target" and "target \<le> 2147483647"
  proof -
    have "brightnessValidation ndebug target s2 =
        Inr (\<bar>target - sum_list (map uint (img_raw_data s2)) div
               int (length (img_raw_data s2))\<bar> \<le> 2)"
      using that(2-5) by (intro brightnessValidation_eq) (simp_all add: INT_MIN_def INT_MAX_def)
    then show ?thesis
      using that(1) assms(2)
      by (simp add: setBrightnessCallback_def setBrightness_wait_def assms(1) tb)
  qed
  show ?thesis using expired left by blast
qed

theorem setBrightness_validates_unless_expired_witness:
  "setBrightnessCallback False 100
     \<lparr>ready_first = True, ready_start = 0, ready_polls = [],
      image_spin = \<lparr>ros_ok = True, isReady = True, currentExposure = 0, exposureStep = 0,
                    now = 0, running_set = None, frame_set = None\<rparr>,
      wait_start = 0,
      wait_polls = [\<lparr>ros_ok = True, isReady = True, currentExposure = 0, exposureStep = 0,
                     now = Duration 1, running_set = Some False, frame_set = Some [101]\<rparr>,
                    \<lparr>ros_ok = True, isReady = True, currentExposure = 0, exposureStep = 0,
                     now = Duration 2, running_set = None, frame_set = None\<rparr>]\<rparr>
     (PylonCameraNode\<lparr>img_raw_data := [50]\<rparr>) =
   (Responded True,
    PylonCameraNode\<lparr>img_raw_data := [101], target_brightness := 100, spin_calls := 2,
      brightness_writes := [100]\<rparr>) \<and>
   setBrightnessCallback False 100
     \<lparr>ready_first = True, ready_start = 0, ready_polls = [],
      image_spin = \<lparr>ros_ok = True, isReady = True, currentExposure = 0, exposureStep = 0,
                    now = 0, running_set = None, frame_set = None\<rparr>,
      wait_start = 0,
      wait_polls = [\<lparr>ros_ok = True, isReady = True, currentExposure = 0, exposureStep = 0,
                     now = Duration 1, running_set = Some False, frame_set = Some [104]\<rparr>,
                    \<lparr>ros_ok = True, isReady = True, currentExposure = 0, exposureStep = 0,
                     now = Duration 2, running_set = None, frame_set = None\<rparr>]\<rparr>
     (PylonCameraNode\<lparr>img_raw_data := [50]\<rparr>) =
   (Responded False,
    PylonCameraNode\<lparr>img_raw_data := [104], target_brightness := 100, spin_calls := 2,
      brightness_writes := [100]\<rparr>) \<and>
   setBrightnessCallback False 100
     \<lparr>ready_first = True, ready_start = 0, ready_polls = [],
      image_spin = \<lparr>ros_ok = True, isReady = True, currentExposure = 0, exposureStep = 0,
                    now = 0, running_set = None, frame_set = None\<rparr>,
      wait_start = 0,
      wait_polls = [\<lparr>ros_ok = True, isReady = True, currentExposure = 0, exposureStep = 0,
                     now = Duration 1, running_set = None, frame_set = Some []\<rparr>,
                    \<lparr>ros_ok = True, isReady = True, currentExposure = 0, exposureStep = 0,
                     now = Duration 6, running_set = None, frame_set = None\<rparr>]\<rparr>
     (PylonCameraNode\<lparr>img_raw_data := [50]\<rparr>) =
   (Responded False,
    PylonCameraNode\<lparr>img_raw_data := [], target_brightness := 100, spin_calls := 2,
      brightness_writes := [100]\<rparr>)"
  using setBrightness_validates_unless_expired [of False 100
     "\<lparr>ready_first = True, ready_start = 0, ready_polls = [],
      image_spin = \<lparr>ros_ok = True, isReady = True, currentExposure = 0, exposureStep = 0,
                    now = 0, running_set = None, frame_set = None\<rparr>,
      wait_start = 0,
      wait_polls = [\<lparr>ros_ok = True, isReady = True, currentExposure = 0, exposureStep = 0,
                     now = Duration 1, running_set = Some False, frame_set = Some [101]\<rparr>,
                    \<lparr>ros_ok = True, isReady = True, currentExposure = 0, exposureStep = 0,
                     now = Duration 2, running_set = None, frame_set = None\<rparr>]\<rparr>"
     "PylonCameraNode\<lparr>img_raw_data := [50]\<rparr>"
     "PylonCameraNode\<lparr>img_raw_data := [50], target_brightness := 100, spin_calls := 1,
        brightness_service_running := True, brightness_writes := [100]\<rparr>"
     Left
     "PylonCameraNode\<lparr>img_raw_data := [101], target_brightness := 100, spin_calls := 2,
      brightness_writes := [100]\<rparr>"]
    setBrightness_validates_unless_expired [of False 100
     "\<lparr>ready_first = True, ready_start = 0, ready_polls = [],
      image_spin = \<lparr>ros_ok = True, isReady = True, currentExposure = 0, exposureStep = 0,
                    now = 0, running_set = None, frame_set = None\<rparr>,
      wait_start = 0,
      wait_polls = [\<lparr>ros_ok = True, isReady = True, currentExposure = 0, exposureStep = 0,
                     now = Duration 1, running_set = Some False, frame_set = Some [104]\<rparr>,
                    \<lparr>ros_ok = True, isReady = True, currentExposure = 0, exposureStep = 0,
                     now = Duration 2, running_set = None, frame_set = None\<rparr>]\<rparr>"
     "PylonCameraNode\<lparr>img_raw_data := [50]\<rparr>"
     "PylonCameraNode\<lparr>img_raw_data := [50], target_brightness := 100, spin_calls := 1,
        brightness_service_running := True, brightness_writes := [100]\<rparr>"
     Left
     "PylonCameraNode\<lparr>img_raw_data := [104], target_brightness := 100, spin_calls := 2,
      brightness_writes := [100]\<rparr>"]
    setBrightness_validates_unless_expired [of False 100
     "\<lparr>ready_first = True, ready_start = 0, ready_polls = [],
      image_spin = \<lparr>ros_ok = True, isReady = True, currentExposure = 0, exposureStep = 0,
                    now = 0, running_set = None, frame_set = None\<rparr>,
      wait_start = 0,
      wait_polls = [\<lparr>ros_ok = True, isReady = True, currentExposure = 0, exposureStep = 0,
                     now = Duration 1, running_set = None, frame_set = Some []\<rparr>,
                    \<lparr>ros_ok = True, isReady = True, currentExposure = 0, exposureStep = 0,
                     now = Duration 6, running_set = None, frame_set = None\<rparr>]\<rparr>"
     "PylonCameraNode\<lparr>img_raw_data := [50]\<rparr>"
     "PylonCameraNode\<lparr>img_raw_data := [50], target_brightness := 100, spin_calls := 1,
        brightness_service_running := True, brightness_writes := [100]\<rparr>"
     Expired
     "PylonCameraNode\<lparr>img_raw_data := [], target_brightness := 100, spin_calls := 2,
      brightness_writes := [100]\<rparr>"]
  by (simp add: setBrightness_request_def calcCurrentBrightness_def int_result_def INT_MIN_def
      INT_MAX_def spinOnce_def PylonCameraNode_def Duration_def Let_def)

text \<open>C8: a call that enters the convergence wait, with \<^verbatim>\<open>ros::ok()\<close> holding and the
  flag never cleared, reports the timeout at the first pass of the loop that finds more than
  the deadline elapsed since the start of the wait, after exactly one \<^verbatim>\<open>ros::spinOnce()\<close> for
  each earlier pass; the deadline is 15 seconds when the target is above 205 and 5 seconds
  otherwise.\<close>

theorem setBrightness_times_out_at_deadline:
  assumes "setBrightness_request ndebug target env s = Inr s1"
    and "\<forall>p\<in>set (wait_polls env). ros_ok p \<and> running_set p \<noteq> Some False"
    and "\<exists>p\<in>set (wait_polls env).
           now p - wait_start env > (if target > 205 then Duration 15 else Duration 5)"
  shows "fst (setBrightnessCallback ndebug target env s) = Responded False \<and>
     spin_calls (snd (setBrightnessCallback ndebug target env s)) =
       spin_calls s1 +
       length (takeWhile
         (\<lambda>p. now p - wait_start env \<le> (if target > 205 then Duration 15 else Duration 5))
         (wait_polls env)) \<and>
     \<not> brightness_service_running (snd (setBrightnessCallback ndebug target env s))"
proof -
  let ?d = "if target > 205 then Duration 15 else Duration 5"
  have s1: "target_brightness s1 = target \<and> brightness_service_running s1"
    using assms(1)
    by (auto simp: setBrightness_request_def Let_def split: if_splits prod.splits
        loop_exit.splits sum.splits)
  obtain e s2 where loop: "brightness_loop ?d (wait_start env) (wait_polls env) s1 = (e, s2)"
    by (cases "brightness_loop ?d (wait_start env) (wait_polls env) s1") auto
  from brightness_loop_never_clears [of s1 "wait_polls env" ?d "wait_start env"] s1 assms(2,3) loop
  have e: "e = Expired"
    and spins: "spin_calls s2 = spin_calls s1 +
      length (takeWhile (\<lambda>p. now p - wait_start env \<le> ?d) (wait_polls env))"
    by simp_all
  have "\<not> brightness_service_running s2"
    using loop e brightness_loop_Expired by blast
  then show ?thesis
    using loop e spins s1
    by (simp add: setBrightnessCallback_def setBrightness_wait_def assms(1))
qed

theorem setBrightness_times_out_at_deadline_witness:
  "fst (setBrightnessCallback False 205
     \<lparr>ready_first = True, ready_start = 0, ready_polls = [],
      image_spin = \<lparr>ros_ok = True, isReady = True, currentExposure = 0, exposureStep = 0,
                    now = 0, running_set = None, frame_set = None\<rparr>,
      wait_start = 0,
      wait_polls = [\<lparr>ros_ok = True, isReady = True, currentExposure = 0, exposureStep = 0,
                     now = Duration 4, running_set = None, frame_set = None\<rparr>,
                    \<lparr>ros_ok = True, isReady = True, currentExposure = 0, exposureStep = 0,
                     now = Duration 6, running_set = None, frame_set = None\<rparr>,
                    \<lparr>ros_ok = True, isReady = True, currentExposure = 0, exposureStep = 0,
                     now = Duration 14, running_set = Some True, frame_set = None\<rparr>,
                    \<lparr>ros_ok = True, isReady = True, currentExposure = 0, exposureStep = 0,
                     now = Duration 16, running_set = None, frame_set = None\<rparr>]\<rparr>
     (PylonCameraNode\<lparr>img_raw_data := [50]\<rparr>)) = Responded False \<and>
   spin_calls (snd (setBrightnessCallback False 205
     \<lparr>ready_first = True, ready_start = 0, ready_polls = [],
      image_spin = \<lparr>ros_ok = True, isReady = True, currentExposure = 0, exposureStep = 0,
                    now = 0, running_set = None, frame_set = None\<rparr>,
      wait_start = 0,
      wait_polls = [\<lparr>ros_ok = True, isReady = True, currentExposure = 0, exposureStep = 0,
                     now = Duration 4, running_set = None, frame_set = None\<rparr>,
                    \<lparr>ros_ok = True, isReady = True, currentExposure = 0, exposureStep = 0,
                     now = Duration 6, running_set = None, frame_set = None\<rparr>,
                    \<lparr>ros_ok = True, isReady = True, currentExposure = 0, exposureStep = 0,
                     now = Duration 14, running_set = Some True, frame_set = None\<rparr>,
                    \<lparr>ros_ok = True, isReady = True, currentExposure = 0, exposureStep = 0,
                     now = Duration 16, running_set = None, frame_set = None\<rparr>]\<rparr>
     (PylonCameraNode\<lparr>img_raw_data := [50]\<rparr>))) = 2 \<and>
   fst (setBrightnessCallback False 206
     \<lparr>ready_first = True, ready_start = 0, ready_polls = [],
      image_spin = \<lparr>ros_ok = True, isReady = True, currentExposure = 0, exposureStep = 0,
                    now = 0, running_set = None, frame_set = None\<rparr>,
      wait_start = 0,
      wait_polls = [\<lparr>ros_ok = True, isReady = True, currentExposure = 0, exposureStep = 0,
                     now = Duration 4, running_set = None, frame_set = None\<rparr>,
                    \<lparr>ros_ok = True, isReady = True, currentExposure = 0, exposureStep = 0,
                     now = Duration 6, running_set = None, frame_set = None\<rparr>,
                    \<lparr>ros_ok = True, isReady = True, currentExposure = 0, exposureStep = 0,
                     now = Duration 14, running_set = Some True, frame_set = None\<rparr>,
                    \<lparr>ros_ok = True, isReady = True, currentExposure = 0, exposureStep = 0,
                     now = Duration 16, running_set = None, frame_set = None\<rparr>]\<rparr>
     (PylonCameraNode\<lparr>img_raw_data := [50]\<rparr>)) = Responded False \<and>
   spin_calls (snd (setBrightnessCallback False 206
     \<lparr>ready_first = True, ready_start = 0, ready_polls = [],
      image_spin = \<lparr>ros_ok = True, isReady = True, currentExposure = 0, exposureStep = 0,
                    now = 0, running_set = None, frame_set = None\<rparr>,
      wait_start = 0,
      wait_polls = [\<lparr>ros_ok = True, isReady = True, currentExposure = 0, exposureStep = 0,
                     now = Duration 4, running_set = None, frame_set = None\<rparr>,
                    \<lparr>ros_ok = True, isReady = True, currentExposure = 0, exposureStep = 0,
                     now = Duration 6, running_set = None, frame_set = None\<rparr>,
                    \<lparr>ros_ok = True, isReady = True, currentExposure = 0, exposureStep = 0,
                     now = Duration 14, running_set = Some True, frame_set = None\<rparr>,
                    \<lparr>ros_ok = True, isReady = True, currentExposure = 0, exposureStep = 0,
                     now = Duration 16, running_set = None, frame_set = None\<rparr>]\<rparr>
     (PylonCameraNode\<lparr>img_raw_data := [50]\<rparr>))) = 4"
  using setBrightness_times_out_at_deadline [of False 205
     "\<lparr>ready_first = True, ready_start = 0, ready_polls = [],
      image_spin = \<lparr>ros_ok = True, isReady = True, currentExposure = 0, exposureStep = 0,
                    now = 0, running_set = None, frame_set = None\<rparr>,
      wait_start = 0,
      wait_polls = [\<lparr>ros_ok = True, isReady = True, currentExposure = 0, exposureStep = 0,
                     now = Duration 4, running_set = None, frame_set = None\<rparr>,
                    \<lparr>ros_ok = True, isReady = True, currentExposure = 0, exposureStep = 0,
                     now = Duration 6, running_set = None, frame_set = None\<rparr>,
                    \<lparr>ros_ok = True, isReady = True, currentExposure = 0, exposureStep = 0,
                     now = Duration 14, running_set = Some True, frame_set = None\<rparr>,
                    \<lparr>ros_ok = True, isReady = True, currentExposure = 0, exposureStep = 0,
                     now = Duration 16, running_set = None, frame_set = None\<rparr>]\<rparr>"
     "PylonCameraNode\<lparr>img_raw_data := [50]\<rparr>" "PylonCameraNode\<lparr>img_raw_data := [50], target_brightness := 205, spin_calls := 1,
        brightness_service_running := True, brightness_writes := [205]\<rparr>"]
    setBrightness_times_out_at_deadline [of False 206
     "\<lparr>ready_first = True, ready_start = 0, ready_polls = [],
      image_spin = \<lparr>ros_ok = True, isReady = True, currentExposure = 0, exposureStep = 0,
                    now = 0, running_set = None, frame_set = None\<rparr>,
      wait_start = 0,
      wait_polls = [\<lparr>ros_ok = True, isReady = True, currentExposure = 0, exposureStep = 0,
                     now = Duration 4, running_set = None, frame_set = None\<rparr>,
                    \<lparr>ros_ok = True, isReady = True, currentExposure = 0, exposureStep = 0,
                     now = Duration 6, running_set = None, frame_set = None\<rparr>,
                    \<lparr>ros_ok = True, isReady = True, currentExposure = 0, exposureStep = 0,
                     now = Duration 14, running_set = Some True, frame_set = None\<rparr>,
                    \<lparr>ros_ok = True, isReady = True, currentExposure = 0, exposureStep = 0,
                     now = Duration 16, running_set = None, frame_set = None\<rparr>]\<rparr>"
     "PylonCameraNode\<lparr>img_raw_data := [50]\<rparr>" "PylonCameraNode\<lparr>img_raw_data := [50], target_brightness := 206, spin_calls := 1,
        brightness_service_running := True, brightness_writes := [206]\<rparr>"]
  by (simp add: setBrightness_request_def calcCurrentBrightness_def int_result_def INT_MIN_def INT_MAX_def spinOnce_def
      PylonCameraNode_def Duration_def Let_def)

text \<open>C9: when the brightness computed from the frame buffer already equals the target,
  the call returns success without a write to the device, and the flag
  \<^verbatim>\<open>brightness_service_running_\<close>, set before the comparison, is still set when it
  returns.\<close>

theorem setBrightness_equal_leaves_flag_set:
  assumes "(if \<not> ready_first env then ready_loop (ready_start env) (ready_polls env) s
            else (Left, s)) = (Left, s1)"
    and "calcCurrentBrightness ndebug (spinOnce (image_spin env) s1) = Inr target"
  shows "fst (setBrightnessCallback ndebug target env s) = Responded True \<and>
     brightness_service_running (snd (setBrightnessCallback ndebug target env s)) \<and>
     brightness_writes (snd (setBrightnessCallback ndebug target env s)) = brightness_writes s"
proof -
  have "brightness_writes s1 = brightness_writes s"
    using assms(1) ready_loop_writes [of "ready_start env" "ready_polls env" s]
    by (auto split: if_splits)
  then show ?thesis
    using assms
    by (simp add: setBrightnessCallback_def setBrightness_request_def Let_def spinOnce_def)
qed

theorem setBrightness_equal_leaves_flag_set_witness:
  "fst (setBrightnessCallback False 100
     \<lparr>ready_first = False, ready_start = 0,
      ready_polls = [\<lparr>ros_ok = True, isReady = False, currentExposure = 0, exposureStep = 0,
                      now = Duration 1, running_set = None, frame_set = None\<rparr>,
                     \<lparr>ros_ok = True, isReady = True, currentExposure = 0, exposureStep = 0,
                      now = Duration 2, running_set = None, frame_set = None\<rparr>],
      image_spin = \<lparr>ros_ok = True, isReady = True, currentExposure = 0, exposureStep = 0,
                    now = Duration 2, running_set = None, frame_set = None\<rparr>,
      wait_start = 0, wait_polls = []\<rparr>
     (PylonCameraNode\<lparr>img_raw_data := [100]\<rparr>)) = Responded True \<and>
   brightness_service_running (snd (setBrightnessCallback False 100
     \<lparr>ready_first = False, ready_start = 0,
      ready_polls = [\<lparr>ros_ok = True, isReady = False, currentExposure = 0, exposureStep = 0,
                      now = Duration 1, running_set = None, frame_set = None\<rparr>,
                     \<lparr>ros_ok = True, isReady = True, currentExposure = 0, exposureStep = 0,
                      now = Duration 2, running_set = None, frame_set = None\<rparr>],
      image_spin = \<lparr>ros_ok = True, isReady = True, currentExposure = 0, exposureStep = 0,
                    now = Duration 2, running_set = None, frame_set = None\<rparr>,
      wait_start = 0, wait_polls = []\<rparr>
     (PylonCameraNode\<lparr>img_raw_data := [100]\<rparr>))) \<and>
   brightness_writes (snd (setBrightnessCallback False 100
     \<lparr>ready_first = False, ready_start = 0,
      ready_polls = [\<lparr>ros_ok = True, isReady = False, currentExposure = 0, exposureStep = 0,
                      now = Duration 1, running_set = None, frame_set = None\<rparr>,
                     \<lparr>ros_ok = True, isReady = True, currentExposure = 0, exposureStep = 0,
                      now = Duration 2, running_set = None, frame_set = None\<rparr>],
      image_spin = \<lparr>ros_ok = True, isReady = True, currentExposure = 0, exposureStep = 0,
                    now = Duration 2, running_set = None, frame_set = None\<rparr>,
      wait_start = 0, wait_polls = []\<rparr>
     (PylonCameraNode\<lparr>img_raw_data := [100]\<rparr>))) = []"
  using setBrightness_equal_leaves_flag_set [of
     "\<lparr>ready_first = False, ready_start = 0,
      ready_polls = [\<lparr>ros_ok = True, isReady = False, currentExposure = 0, exposureStep = 0,
                      now = Duration 1, running_set = None, frame_set = None\<rparr>,
                     \<lparr>ros_ok = True, isReady = True, currentExposure = 0, exposureStep = 0,
                      now = Duration 2, running_set = None, frame_set = None\<rparr>],
      image_spin = \<lparr>ros_ok = True, isReady = True, currentExposure = 0, exposureStep = 0,
                    now = Duration 2, running_set = None, frame_set = None\<rparr>,
      wait_start = 0, wait_polls = []\<rparr>"
     "PylonCameraNode\<lparr>img_raw_data := [100]\<rparr>" "PylonCameraNode\<lparr>img_raw_data := [100], spin_calls := 1\<rparr>" False 100]
  by (simp add: calcCurrentBrightness_def int_result_def INT_MIN_def INT_MAX_def spinOnce_def
      PylonCameraNode_def Duration_def Let_def)

end
